theory Spec2Isabelle
  imports Main "HOL-Library.Word"
begin

section \<open>The WireGuard node reconciler (pkg/controllers/wireguardnode.go)\<close>

text \<open>
  A shallow embedding of \<^verbatim>\<open>WireguardNodeReconciler\<close>. The reconciler is a record that is
  passed in and returned; a Go map that may be \<^verbatim>\<open>nil\<close> is an optional partial function, a
  pointer that may be \<^verbatim>\<open>nil\<close> an optional value; a runtime panic is the left injection of
  the result. The reader/writer lock \<^verbatim>\<open>mu\<close> only brackets the three cache accessors and is
  not modelled: one notification is processed at a time. Logging has no model.
\<close>

subsection \<open>Data\<close>

text \<open>\<^verbatim>\<open>wgtypes.Key\<close> is \<^verbatim>\<open>[32]byte\<close>; \<^verbatim>\<open>net.IPNet\<close> is (IP, Mask); \<^verbatim>\<open>net.UDPAddr\<close> is (IP, Port, Zone).\<close>

type_synonym Key = "8 word list"
type_synonym IPNet = "8 word list \<times> 8 word list"
type_synonym UDPAddr = "8 word list \<times> int \<times> string"

text \<open>
  Go errors: an opaque error of a collaborator, or \<^verbatim>\<open>fmt.Errorf("<msg>: %w", err)\<close>
  wrapping one.
\<close>

datatype error = Err string | Errorf string error

datatype panic = NilMapAssignment | NilDereference

text \<open>\<^verbatim>\<open>v1.Node\<close>: only the object's name and annotations are used. The annotations map may be nil.\<close>

record Node =
  Name :: string
  Annotations :: "(string \<rightharpoonup> string) option"

text \<open>\<^verbatim>\<open>wgtypes.Peer\<close>, \<^verbatim>\<open>wgtypes.PeerConfig\<close>, \<^verbatim>\<open>wgtypes.Config\<close>, \<^verbatim>\<open>wgtypes.Device\<close>: the fields
  this file reads or sets; every other field of a config built here keeps its zero value.\<close>

record Peer =
  PublicKey :: Key
  Endpoint :: "UDPAddr option"
  AllowedIPs :: "IPNet list"

record PeerConfig =
  PublicKey :: Key
  Remove :: bool
  Endpoint :: "UDPAddr option"
  AllowedIPs :: "IPNet list"

record Config =
  Peers :: "PeerConfig list"

record Device =
  Name :: string
  PublicKey :: Key
  Peers :: "Peer list"

text \<open>\<^verbatim>\<open>ctrl.Request\<close> (a namespaced name) and \<^verbatim>\<open>ctrl.Result\<close>.\<close>

record Request =
  Namespace :: string
  Name :: string

record Result =
  Requeue :: bool

text \<open>
  The collaborators. \<^verbatim>\<open>client.Client\<close> is the membership source: each method is the answer
  it gives during one notification. \<^verbatim>\<open>wgctrl.Client\<close> is the device adapter.
\<close>

record client =
  Get :: "Request \<Rightarrow> error + Node"
  List :: "error + Node list"
  Update :: "Node \<Rightarrow> error option"

record wgclient =
  ConfigureDevice :: "string \<Rightarrow> Config \<Rightarrow> error option"

text \<open>
  Functions and constants of other packages, taken as parameters:
  \<^verbatim>\<open>errors.IsNotFound\<close>, \<^verbatim>\<open>wgtypes.ParseKey\<close> and \<^verbatim>\<open>Key.String\<close> are library code.
  Modelled from the spec: \<^verbatim>\<open>wireguard.FromNode\<close>, \<^verbatim>\<open>wireguard.IPAnnotationName\<close> and
  \<^verbatim>\<open>wireguard.PublicKeyAnnotationName\<close> belong to package \<^verbatim>\<open>wg-overlay/pkg/wireguard\<close>, which
  is not in the source tree; \<^verbatim>\<open>FromNode\<close> derives a candidate peer from a host record or
  fails when no usable public key can be derived, and the two names are metadata keys.
\<close>

record lib =
  IsNotFound :: "error \<Rightarrow> bool"
  ParseKey :: "string \<Rightarrow> error + Key"
  KeyString :: "Key \<Rightarrow> string"
  FromNode :: "Node \<Rightarrow> error + Peer"
  IPAnnotationName :: string
  PublicKeyAnnotationName :: string

text \<open>The calls that change a collaborator, in the order they are issued.\<close>

datatype event = ConfigureDeviceCall string Config | UpdateCall Node

text \<open>
  \<^verbatim>\<open>WireguardNodeReconciler\<close>. \<^verbatim>\<open>NodeName\<close> and \<^verbatim>\<open>OverlayIP\<close> come from the embedded
  \<^verbatim>\<open>overlay.Config\<close>. \<^verbatim>\<open>calls\<close> is not a field of the struct: it records the calls issued.
\<close>

record WireguardNodeReconciler =
  Client :: "client option"
  NodeName :: string
  OverlayIP :: string
  WgDevice :: "Device option"
  WgClient :: "wgclient option"
  cache :: "(string \<rightharpoonup> string) option"
  calls :: "event list"

subsection \<open>Go map operations\<close>

text \<open>\<^verbatim>\<open>v, ok := m[k]\<close>: a nil map and a missing key both give the zero value and false.\<close>

definition index :: "(string \<rightharpoonup> string) option \<Rightarrow> string \<Rightarrow> string \<times> bool" where
  "index m k =
     (case m of None \<Rightarrow> ('''', False)
      | Some f \<Rightarrow> (case f k of None \<Rightarrow> ('''', False) | Some v \<Rightarrow> (v, True)))"

text \<open>\<^verbatim>\<open>m[k] = v\<close>: panics on a nil map.\<close>

definition assign :: "(string \<rightharpoonup> string) option \<Rightarrow> string \<Rightarrow> string \<Rightarrow> panic + (string \<rightharpoonup> string) option" where
  "assign m k v =
     (case m of None \<Rightarrow> Inl NilMapAssignment | Some f \<Rightarrow> Inr (Some (f(k \<mapsto> v))))"

text \<open>\<^verbatim>\<open>len(m) == 0\<close>.\<close>

definition len0 :: "(string \<rightharpoonup> string) option \<Rightarrow> bool" where
  "len0 m = (case m of None \<Rightarrow> True | Some f \<Rightarrow> f = Map.empty)"

subsection \<open>The cache accessors (lines 30-46)\<close>

definition put :: "string \<Rightarrow> string \<Rightarrow> WireguardNodeReconciler \<Rightarrow> panic + WireguardNodeReconciler" where
  "put key val r =
     (case assign (cache r) key val of Inl p \<Rightarrow> Inl p | Inr m \<Rightarrow> Inr (r\<lparr>cache := m\<rparr>))"

definition del :: "string \<Rightarrow> WireguardNodeReconciler \<Rightarrow> WireguardNodeReconciler" where
  "del key r =
     (case cache r of None \<Rightarrow> r | Some f \<Rightarrow> r\<lparr>cache := Some (f(key := None))\<rparr>)"

definition get :: "WireguardNodeReconciler \<Rightarrow> string \<Rightarrow> string \<times> bool" where
  "get r key = index (cache r) key"

subsection \<open>hydrateCache (lines 153-177)\<close>

text \<open>The set of the device's keys, \<^verbatim>\<open>map[string]bool\<close>; a missing key reads as false.\<close>

definition knownPeers :: "lib \<Rightarrow> Peer list \<Rightarrow> (string \<rightharpoonup> bool)" where
  "knownPeers L ps = fold (\<lambda>peer kp. kp(KeyString L (Peer.PublicKey peer) \<mapsto> True)) ps Map.empty"

definition known :: "(string \<rightharpoonup> bool) \<Rightarrow> string \<Rightarrow> bool" where
  "known kp k = (case kp k of None \<Rightarrow> False | Some b \<Rightarrow> b)"

text \<open>The loop over \<^verbatim>\<open>nodes.Items\<close>.\<close>

fun hydrateLoop :: "lib \<Rightarrow> (string \<rightharpoonup> bool) \<Rightarrow> Node list \<Rightarrow> WireguardNodeReconciler
    \<Rightarrow> panic + WireguardNodeReconciler" where
  "hydrateLoop L kp [] r = Inr r"
| "hydrateLoop L kp (n # ns) r =
     (let publicKey = fst (index (Annotations n) (PublicKeyAnnotationName L))
      in if known kp publicKey \<and> publicKey \<noteq> ''''
         then (case put (Node.Name n) publicKey r of
                 Inl p \<Rightarrow> Inl p
               | Inr r' \<Rightarrow> hydrateLoop L kp ns r')
         else hydrateLoop L kp ns r)"

definition hydrateCache :: "lib \<Rightarrow> WireguardNodeReconciler \<Rightarrow> panic + WireguardNodeReconciler" where
  "hydrateCache L r =
     (case Client r of
        None \<Rightarrow> Inr r
      | Some c \<Rightarrow>
          (case List c of
             Inl err \<Rightarrow> Inr r
           | Inr nodes \<Rightarrow>
               (case WgDevice r of
                  None \<Rightarrow> Inl NilDereference
                | Some d \<Rightarrow>
                    hydrateLoop L (knownPeers L (Device.Peers d)) nodes
                      (r\<lparr>cache := Some Map.empty\<rparr>))))"

subsection \<open>ReconcilePeer (lines 126-146)\<close>

definition ReconcilePeer :: "WireguardNodeReconciler \<Rightarrow> Peer \<Rightarrow> bool
    \<Rightarrow> (panic + error option) \<times> WireguardNodeReconciler" where
  "ReconcilePeer r peer isDelete =
     (let cfg0 = \<lparr>Config.Peers =
                   [\<lparr>PeerConfig.PublicKey = Peer.PublicKey peer, Remove = False,
                     Endpoint = Peer.Endpoint peer, AllowedIPs = Peer.AllowedIPs peer\<rparr>]\<rparr>;
          cfg = (if isDelete
                 then cfg0\<lparr>Config.Peers := map (\<lambda>p. p\<lparr>Remove := True\<rparr>) (Config.Peers cfg0)\<rparr>
                 else cfg0)
      in case WgDevice r of
           None \<Rightarrow> (Inl NilDereference, r)
         | Some d \<Rightarrow>
             (case WgClient r of
                None \<Rightarrow> (Inl NilDereference, r)
              | Some wc \<Rightarrow>
                  (let r' = r\<lparr>calls := calls r @ [ConfigureDeviceCall (Device.Name d) cfg]\<rparr>
                   in case ConfigureDevice wc (Device.Name d) cfg of
                        Some err \<Rightarrow> (Inr (Some (Errorf ''ConfigureDevice failed'' err)), r')
                      | None \<Rightarrow> (Inr None, r'))))"

subsection \<open>Annotate (lines 111-124)\<close>

text \<open>The node is updated in place; the model returns it with the two results.\<close>

definition setAnnotation :: "Node \<Rightarrow> string \<Rightarrow> string \<Rightarrow> panic + Node" where
  "setAnnotation n k v =
     (case assign (Annotations n) k v of Inl p \<Rightarrow> Inl p | Inr m \<Rightarrow> Inr (n\<lparr>Annotations := m\<rparr>))"

definition Annotate :: "lib \<Rightarrow> WireguardNodeReconciler \<Rightarrow> Node \<Rightarrow> panic + (Node \<times> bool \<times> error option)" where
  "Annotate L r n =
     (let (ip, ok) = index (Annotations n) (IPAnnotationName L);
          update1 = (\<not> ok \<or> ip \<noteq> OverlayIP r)
      in case (if update1 then setAnnotation n (IPAnnotationName L) (OverlayIP r) else Inr n) of
           Inl p \<Rightarrow> Inl p
         | Inr n1 \<Rightarrow>
             (case WgDevice r of
                None \<Rightarrow> Inl NilDereference
              | Some d \<Rightarrow>
                  (let pubKey = KeyString L (Device.PublicKey d);
                       (pub, ok2) = index (Annotations n1) (PublicKeyAnnotationName L);
                       update2 = (\<not> ok2 \<or> pub \<noteq> pubKey)
                   in case (if update2 then setAnnotation n1 (PublicKeyAnnotationName L) pubKey
                            else Inr n1) of
                        Inl p \<Rightarrow> Inl p
                      | Inr n2 \<Rightarrow> Inr (n2, update1 \<or> update2, None))))"

subsection \<open>Reconcile (lines 48-109)\<close>

text \<open>Lines 50-54: hydrate when the cache has no entry.\<close>

definition hydrateIfEmpty :: "lib \<Rightarrow> WireguardNodeReconciler \<Rightarrow> panic + WireguardNodeReconciler" where
  "hydrateIfEmpty L r = (if len0 (cache r) then hydrateCache L r else Inr r)"

text \<open>Lines 55-108: the notification itself. A nil \<^verbatim>\<open>Client\<close> panics at \<^verbatim>\<open>r.Get\<close>.\<close>

definition reconcileNode :: "lib \<Rightarrow> Request \<Rightarrow> WireguardNodeReconciler
    \<Rightarrow> (panic + Result \<times> error option) \<times> WireguardNodeReconciler" where
  "reconcileNode L req r =
     (case Client r of
        None \<Rightarrow> (Inl NilDereference, r)
      | Some c \<Rightarrow>
          (case Get c req of
             Inl err \<Rightarrow>
               if \<not> IsNotFound L err then (Inr (\<lparr>Requeue = False\<rparr>, Some err), r)
               else
                 (let (pubKey, ok) = get r (Request.Name req)
                  in if ok then
                       (case ParseKey L pubKey of
                          Inl err \<Rightarrow> (Inr (\<lparr>Requeue = False\<rparr>, Some err), r)
                        | Inr key \<Rightarrow>
                            (let peerToDelete =
                                   \<lparr>Peer.PublicKey = key, Endpoint = None, AllowedIPs = []\<rparr>
                             in case ReconcilePeer r peerToDelete True of
                                  (Inl p, r') \<Rightarrow> (Inl p, r')
                                | (Inr (Some err), r') \<Rightarrow> (Inr (\<lparr>Requeue = False\<rparr>, Some err), r')
                                | (Inr None, r') \<Rightarrow>
                                    (Inr (\<lparr>Requeue = False\<rparr>, None), del (Request.Name req) r')))
                     else (Inr (\<lparr>Requeue = False\<rparr>, None), r))
           | Inr node \<Rightarrow>
               if Node.Name node = NodeName r then
                 (case Annotate L r node of
                    Inl p \<Rightarrow> (Inl p, r)
                  | Inr (node', update, err) \<Rightarrow>
                      if update \<and> err = None then
                        (let r' = r\<lparr>calls := calls r @ [UpdateCall node']\<rparr>
                         in case Update c node' of
                              Some err \<Rightarrow> (Inr (\<lparr>Requeue = True\<rparr>, Some err), r')
                            | None \<Rightarrow> (Inr (\<lparr>Requeue = False\<rparr>, None), r'))
                      else (Inr (\<lparr>Requeue = False\<rparr>, None), r))
               else
                 (case FromNode L node of
                    Inl err \<Rightarrow> (Inr (\<lparr>Requeue = False\<rparr>, None), r)
                  | Inr peer \<Rightarrow>
                      (let (pubKey, ok) = get r (Node.Name node)
                       in if ok \<and> pubKey = KeyString L (Peer.PublicKey peer)
                          then (Inr (\<lparr>Requeue = False\<rparr>, None), r)
                          else
                            (case ReconcilePeer r peer False of
                               (Inl p, r') \<Rightarrow> (Inl p, r')
                             | (Inr (Some err), r') \<Rightarrow> (Inr (\<lparr>Requeue = False\<rparr>, Some err), r')
                             | (Inr None, r') \<Rightarrow>
                                 (case put (Node.Name node)
                                         (KeyString L (Peer.PublicKey peer)) r' of
                                    Inl p \<Rightarrow> (Inl p, r')
                                  | Inr r'' \<Rightarrow> (Inr (\<lparr>Requeue = False\<rparr>, None), r'')))))))"

definition Reconcile :: "lib \<Rightarrow> Request \<Rightarrow> WireguardNodeReconciler
    \<Rightarrow> (panic + Result \<times> error option) \<times> WireguardNodeReconciler" where
  "Reconcile L req r =
     (case hydrateIfEmpty L r of
        Inl p \<Rightarrow> (Inl p, r)
      | Inr r1 \<Rightarrow> reconcileNode L req r1)"

subsection \<open>The device behind the stored record\<close>




subsection \<open>A concrete deployment\<close>

text \<open>Two remote hosts, a device \<^verbatim>\<open>wg0\<close> that knows the peer with key string \<^verbatim>\<open>k1\<close>, and toy
  library functions: the inputs on which the theorems below are instantiated.\<close>

definition exLib :: lib where
  "exLib = \<lparr>IsNotFound = (\<lambda>e. e = Err ''not found''),
            ParseKey = (\<lambda>s. if s = ''k1'' then Inr [1] else if s = ''k2'' then Inr [2]
                             else Inl (Err ''bad key'')),
            KeyString = (\<lambda>k. if k = [1] then ''k1'' else if k = [2] then ''k2'' else ''?''),
            FromNode = (\<lambda>n. let s = fst (index (Annotations n) ''wg-pubkey'')
                             in if s = ''k1'' then Inr \<lparr>Peer.PublicKey = [1], Endpoint = None, AllowedIPs = []\<rparr>
                                else if s = ''k2'' then Inr \<lparr>Peer.PublicKey = [2], Endpoint = None, AllowedIPs = []\<rparr>
                                else Inl (Err ''no public key'')),
            IPAnnotationName = ''wg-ip'',
            PublicKeyAnnotationName = ''wg-pubkey''\<rparr>"

definition exNode :: "string \<Rightarrow> string \<Rightarrow> Node" where
  "exNode name k = \<lparr>Node.Name = name, Annotations = Some [''wg-pubkey'' \<mapsto> k]\<rparr>"

definition exBare :: "string \<Rightarrow> Node" where
  "exBare name = \<lparr>Node.Name = name, Annotations = None\<rparr>"

definition exReq :: "string \<Rightarrow> Request" where
  "exReq name = \<lparr>Namespace = '''', Request.Name = name\<rparr>"

definition exClient :: "Node list \<Rightarrow> client" where
  "exClient ns = \<lparr>Get = (\<lambda>q. case find (\<lambda>n. Node.Name n = Request.Name q) ns of
                               None \<Rightarrow> Inl (Err ''not found'') | Some n \<Rightarrow> Inr n),
                  List = Inr ns,
                  Update = (\<lambda>_. None)\<rparr>"

definition exDevice :: Device where
  "exDevice = \<lparr>Device.Name = ''wg0'', PublicKey = [9],
               Peers = [\<lparr>Peer.PublicKey = [1], Endpoint = None, AllowedIPs = []\<rparr>]\<rparr>"

definition exRec :: "client \<Rightarrow> error option \<Rightarrow> (string \<rightharpoonup> string) option \<Rightarrow> WireguardNodeReconciler" where
  "exRec c answer m = \<lparr>Client = Some c, NodeName = ''self'', OverlayIP = ''10.0.0.1'',
                       WgDevice = Some exDevice,
                       WgClient = Some \<lparr>ConfigureDevice = (\<lambda>_ _. answer)\<rparr>,
                       cache = m, calls = []\<rparr>"



section \<open>Properties\<close>

subsection \<open>Unfolding sets\<close>

lemmas ex_defs = exLib_def exNode_def exBare_def exReq_def exClient_def exDevice_def exRec_def

lemmas run_defs = Reconcile_def hydrateIfEmpty_def hydrateCache_def len0_def reconcileNode_def
  get_def index_def ReconcilePeer_def put_def assign_def del_def Let_def Annotate_def
  setAnnotation_def knownPeers_def known_def


subsection \<open>Hydration\<close>



lemma hydrateLoop_frame:
  "cache r = Some m \<Longrightarrow>
   \<exists>m'. hydrateLoop L kp ns r = Inr (r\<lparr>cache := Some m'\<rparr>)
        \<and> (\<forall>N. N \<notin> Node.Name ` set ns \<longrightarrow> m' N = m N)"
proof (induction ns arbitrary: r m)
  case Nil
  then show ?case by (intro exI[of _ m]) simp
next
  case (Cons n ns)
  let ?pk = "fst (index (Annotations n) (PublicKeyAnnotationName L))"
  show ?case
  proof (cases "known kp ?pk \<and> ?pk \<noteq> ''''")
    case True
    let ?r1 = "r\<lparr>cache := Some (m(Node.Name n \<mapsto> ?pk))\<rparr>"
    have c1: "cache ?r1 = Some (m(Node.Name n \<mapsto> ?pk))" by simp
    from Cons.IH[OF c1] obtain m' where
      h: "hydrateLoop L kp ns ?r1 = Inr (?r1\<lparr>cache := Some m'\<rparr>)"
         "\<forall>N. N \<notin> Node.Name ` set ns \<longrightarrow> m' N = (m(Node.Name n \<mapsto> ?pk)) N" by blast
    have "hydrateLoop L kp (n # ns) r = Inr (r\<lparr>cache := Some m'\<rparr>)"
      using True h(1) Cons.prems by (simp add: put_def assign_def)
    moreover have "\<forall>N. N \<notin> Node.Name ` set (n # ns) \<longrightarrow> m' N = m N"
      using h(2) by auto
    ultimately show ?thesis by blast
  next
    case False
    from Cons.IH[OF Cons.prems] obtain m' where
      h: "hydrateLoop L kp ns r = Inr (r\<lparr>cache := Some m'\<rparr>)"
         "\<forall>N. N \<notin> Node.Name ` set ns \<longrightarrow> m' N = m N" by blast
    have "hydrateLoop L kp (n # ns) r = Inr (r\<lparr>cache := Some m'\<rparr>)"
      using False h(1) by (auto simp: Let_def)
    moreover have "\<forall>N. N \<notin> Node.Name ` set (n # ns) \<longrightarrow> m' N = m N"
      using h(2) by auto
    ultimately show ?thesis by blast
  qed
qed


lemma hydrateCache_frame:
  "hydrateCache L r = Inr r1 \<Longrightarrow> \<exists>m. r1 = r\<lparr>cache := m\<rparr>"
proof (cases "Client r")
  case None
  assume "hydrateCache L r = Inr r1"
  with None have "r1 = r" by (simp add: hydrateCache_def)
  then show ?thesis by (intro exI[of _ "cache r"]) simp
next
  case (Some c)
  assume h: "hydrateCache L r = Inr r1"
  show ?thesis
  proof (cases "List c")
    case (Inl e)
    with Some h have "r1 = r" by (simp add: hydrateCache_def)
    then show ?thesis by (intro exI[of _ "cache r"]) simp
  next
    case (Inr nodes)
    show ?thesis
    proof (cases "WgDevice r")
      case None
      with Some Inr h show ?thesis by (simp add: hydrateCache_def)
    next
      case (Some d)
      have "cache (r\<lparr>cache := Some Map.empty\<rparr>) = Some Map.empty" by simp
      from hydrateLoop_frame[OF this, of L "knownPeers L (Device.Peers d)" nodes]
      obtain m' where "hydrateLoop L (knownPeers L (Device.Peers d)) nodes (r\<lparr>cache := Some Map.empty\<rparr>)
          = Inr (r\<lparr>cache := Some m'\<rparr>)" by auto
      with \<open>Client r = Some c\<close> Inr Some h have "r1 = r\<lparr>cache := Some m'\<rparr>"
        by (simp add: hydrateCache_def)
      then show ?thesis by blast
    qed
  qed
qed

lemma hydrateIfEmpty_frame:
  "hydrateIfEmpty L r = Inr r1 \<Longrightarrow> \<exists>m. r1 = r\<lparr>cache := m\<rparr>"
  unfolding hydrateIfEmpty_def
  by (cases "len0 (cache r)") (auto dest: hydrateCache_frame intro: exI[of _ "cache r"])

lemma hydrateIfEmpty_nonempty:
  "cache r = Some m \<Longrightarrow> m k = Some v \<Longrightarrow> hydrateIfEmpty L r = Inr r"
  by (auto simp: hydrateIfEmpty_def len0_def)

lemma hydrateIfEmpty_fields:
  assumes "hydrateIfEmpty L r = Inr r1"
  shows "Client r1 = Client r" "NodeName r1 = NodeName r" "OverlayIP r1 = OverlayIP r"
    "WgDevice r1 = WgDevice r" "WgClient r1 = WgClient r" "calls r1 = calls r"
  using hydrateIfEmpty_frame[OF assms] by auto

subsection \<open>Auxiliary facts\<close>

lemma Reconcile_nil_client:
  "Client r = None \<Longrightarrow> Reconcile L req r = (Inl NilDereference, r)"
  by (simp add: Reconcile_def hydrateIfEmpty_def hydrateCache_def reconcileNode_def)

lemma Annotate_cache_indep: "Annotate L (r\<lparr>cache := x\<rparr>) n = Annotate L r n"
  by (simp add: Annotate_def Let_def split: prod.splits sum.splits option.splits)

lemma ReconcilePeer_cases:
  "ReconcilePeer r peer isDelete = (res, r') \<Longrightarrow>
     (r' = r \<and> res = Inl NilDereference)
   \<or> (\<exists>d wc cfg. WgDevice r = Some d \<and> WgClient r = Some wc
        \<and> r' = r\<lparr>calls := calls r @ [ConfigureDeviceCall (Device.Name d) cfg]\<rparr>
        \<and> res = Inr (case ConfigureDevice wc (Device.Name d) cfg of
                        None \<Rightarrow> None
                      | Some err \<Rightarrow> Some (Errorf ''ConfigureDevice failed'' err)))"
  by (auto simp: ReconcilePeer_def Let_def split: option.splits)

text \<open>
  Once a notification for a remote host with a derivable peer has returned success, it
  issued at most one device call, and the same notification is from then on a no-op.
\<close>

lemma Reconcile_success_then_noop:
  assumes "Client r = Some c"
    and "Get c req = Inr node"
    and "Node.Name node \<noteq> NodeName r"
    and "FromNode L node = Inr peer"
    and "Reconcile L req r = (Inr (res, None), r')"
  shows "Reconcile L req r' = (Inr (\<lparr>Requeue = False\<rparr>, None), r')
       \<and> (calls r' = calls r \<or> (\<exists>dn cfg. calls r' = calls r @ [ConfigureDeviceCall dn cfg]))"
proof -
  obtain r1 where h: "hydrateIfEmpty L r = Inr r1" and body: "reconcileNode L req r1 = (Inr (res, None), r')"
    using assms(5) by (auto simp: Reconcile_def split: sum.splits)
  note f = hydrateIfEmpty_fields[OF h]
  let ?K = "KeyString L (Peer.PublicKey peer)"
  have pre: "Client r1 = Some c" "Node.Name node \<noteq> NodeName r1"
    using f assms(1,3) by simp_all
  have "\<exists>m. cache r' = Some m \<and> m (Node.Name node) = Some ?K
          \<and> Client r' = Some c \<and> NodeName r' = NodeName r
          \<and> (calls r' = calls r \<or> (\<exists>dn cfg. calls r' = calls r @ [ConfigureDeviceCall dn cfg]))"
    using body pre assms(2,4) f(2,6)
    by (auto simp: reconcileNode_def get_def index_def put_def assign_def Let_def
             split: option.splits sum.splits if_splits prod.splits
             dest!: ReconcilePeer_cases)
  then obtain m where m: "cache r' = Some m" "m (Node.Name node) = Some ?K"
      "Client r' = Some c" "NodeName r' = NodeName r"
      "calls r' = calls r \<or> (\<exists>dn cfg. calls r' = calls r @ [ConfigureDeviceCall dn cfg])"
    by blast
  have "hydrateIfEmpty L r' = Inr r'" using m(1,2) by (rule hydrateIfEmpty_nonempty)
  then have "Reconcile L req r' = (Inr (\<lparr>Requeue = False\<rparr>, None), r')"
    using m assms(2,3,4) by (simp add: Reconcile_def reconcileNode_def get_def index_def)
  with m(5) show ?thesis by simp
qed

subsection \<open>The claims\<close>

text \<open>
  Claim C1 (idempotence). A notification for a remote host \<open>N\<close> whose record is found,
  whose candidate peer is derived, and whose cache entry already equals the candidate's
  public key string, returns success and leaves the reconciler as it was: no call is
  appended to \<open>calls\<close> and the cache is the same. Since the state is the same, any
  number \<open>k\<close> of repeated notifications leaves it the same as well, so none of them
  invokes the device adapter.
\<close>

theorem Reconcile_cached_key_noop:
  assumes "cache r = Some m"
    and "m N = Some (KeyString L (Peer.PublicKey peer))"
    and "Client r = Some c"
    and "Request.Name req = N"
    and "Get c req = Inr node"
    and "Node.Name node = N"
    and "N \<noteq> NodeName r"
    and "FromNode L node = Inr peer"
  shows "Reconcile L req r = (Inr (\<lparr>Requeue = False\<rparr>, None), r)
       \<and> ((\<lambda>s. snd (Reconcile L req s)) ^^ k) r = r"
proof -
  have h: "hydrateIfEmpty L r = Inr r"
    using assms(1,2) by (rule hydrateIfEmpty_nonempty)
  have one: "Reconcile L req r = (Inr (\<lparr>Requeue = False\<rparr>, None), r)"
    using assms h by (simp add: Reconcile_def reconcileNode_def get_def index_def)
  have "((\<lambda>s. snd (Reconcile L req s)) ^^ k) r = r"
    by (induction k) (simp_all add: one)
  with one show ?thesis by simp
qed

theorem Reconcile_cached_key_noop_witness:
  "Reconcile exLib (exReq ''A'') (exRec (exClient [exNode ''A'' ''k1'']) None (Some [''A'' \<mapsto> ''k1'']))
     = (Inr (\<lparr>Requeue = False\<rparr>, None),
        exRec (exClient [exNode ''A'' ''k1'']) None (Some [''A'' \<mapsto> ''k1'']))
   \<and> ((\<lambda>s. snd (Reconcile exLib (exReq ''A'') s)) ^^ 3)
        (exRec (exClient [exNode ''A'' ''k1'']) None (Some [''A'' \<mapsto> ''k1'']))
     = exRec (exClient [exNode ''A'' ''k1'']) None (Some [''A'' \<mapsto> ''k1''])"
  by (rule Reconcile_cached_key_noop[where m = "[''A'' \<mapsto> ''k1'']" and N = "''A''"
        and peer = "\<lparr>Peer.PublicKey = [1], Endpoint = None, AllowedIPs = []\<rparr>"
        and c = "exClient [exNode ''A'' ''k1'']" and node = "exNode ''A'' ''k1''"])
     (simp_all add: ex_defs index_def)

text \<open>
  Claim C2 (eventual removal). The record of \<open>N\<close> is not found and the cache holds a
  parsable key for \<open>N\<close>: one \<^verbatim>\<open>ConfigureDevice\<close> call is issued, its single peer carries
  that key with \<open>Remove\<close> set, and once the device accepts it the entry for \<open>N\<close> is deleted
  and success returned. A second not-found notification for \<open>N\<close> returns success with no
  further call and leaves \<open>N\<close> without an entry. The membership list is taken not to
  contain \<open>N\<close> any more, as hydration runs again when the deletion emptied the cache.
\<close>

theorem Reconcile_not_found_removes_once:
  assumes "cache r = Some m"
    and "m N = Some pk"
    and "Request.Name req = N"
    and "ParseKey L pk = Inr key"
    and "Client r = Some c"
    and "Get c req = Inl err"
    and "IsNotFound L err"
    and "WgDevice r = Some d"
    and "WgClient r = Some wc"
    and "cfg = \<lparr>Config.Peers = [\<lparr>PeerConfig.PublicKey = key, Remove = True,
                   Endpoint = None, AllowedIPs = []\<rparr>]\<rparr>"
    and "ConfigureDevice wc (Device.Name d) cfg = None"
    and "\<forall>nodes. List c = Inr nodes \<longrightarrow> N \<notin> Node.Name ` set nodes"
    and "r' = r\<lparr>calls := calls r @ [ConfigureDeviceCall (Device.Name d) cfg],
                 cache := Some (m(N := None))\<rparr>"
  shows "Reconcile L req r = (Inr (\<lparr>Requeue = False\<rparr>, None), r')
       \<and> (\<exists>r''. Reconcile L req r' = (Inr (\<lparr>Requeue = False\<rparr>, None), r'')
                \<and> calls r'' = calls r' \<and> get r'' N = ('''', False))"
proof -
  have h: "hydrateIfEmpty L r = Inr r"
    using assms(1,2) by (rule hydrateIfEmpty_nonempty)
  have rp: "ReconcilePeer r \<lparr>Peer.PublicKey = key, Endpoint = None, AllowedIPs = []\<rparr> True =
      (Inr None, r\<lparr>calls := calls r @ [ConfigureDeviceCall (Device.Name d) cfg]\<rparr>)"
    using assms(8-11) by (simp add: ReconcilePeer_def)
  have first: "Reconcile L req r = (Inr (\<lparr>Requeue = False\<rparr>, None), r')"
    using assms(1-7,13) h rp
    by (simp add: Reconcile_def reconcileNode_def get_def index_def del_def)
  have absent: "\<exists>r1. hydrateIfEmpty L r' = Inr r1 \<and> calls r1 = calls r' \<and> Client r1 = Some c
                  \<and> get r1 N = ('''', False)"
  proof (cases "len0 (cache r')")
    case False
    then have "hydrateIfEmpty L r' = Inr r'" by (simp add: hydrateIfEmpty_def)
    moreover have "get r' N = ('''', False)" using assms(13) by (simp add: get_def index_def)
    ultimately show ?thesis using assms(5,13) by simp
  next
    case True
    show ?thesis
    proof (cases "List c")
      case (Inl e)
      then have "hydrateIfEmpty L r' = Inr r'"
        using True assms(5,13) by (simp add: hydrateIfEmpty_def hydrateCache_def)
      moreover have "get r' N = ('''', False)" using assms(13) by (simp add: get_def index_def)
      ultimately show ?thesis using assms(5,13) by simp
    next
      case (Inr nodes)
      let ?r0 = "r'\<lparr>cache := Some Map.empty\<rparr>"
      have c0: "cache ?r0 = Some Map.empty" by simp
      from hydrateLoop_frame[OF c0, of L "knownPeers L (Device.Peers d)" nodes]
      obtain m' where
        hl: "hydrateLoop L (knownPeers L (Device.Peers d)) nodes ?r0 = Inr (?r0\<lparr>cache := Some m'\<rparr>)"
            "\<forall>N. N \<notin> Node.Name ` set nodes \<longrightarrow> m' N = Map.empty N" by blast
      have "N \<notin> Node.Name ` set nodes" using assms(12) Inr by simp
      then have m'N: "m' N = None" using hl(2) by simp
      have "hydrateIfEmpty L r' = Inr (r'\<lparr>cache := Some m'\<rparr>)"
        using True Inr hl(1) assms(5,8,13) by (simp add: hydrateIfEmpty_def hydrateCache_def)
      moreover have "get (r'\<lparr>cache := Some m'\<rparr>) N = ('''', False)"
        using m'N by (simp add: get_def index_def)
      ultimately show ?thesis using assms(5,13) by simp
    qed
  qed
  then obtain r1 where r1: "hydrateIfEmpty L r' = Inr r1" "calls r1 = calls r'"
      "Client r1 = Some c" "get r1 N = ('''', False)" by blast
  have "Reconcile L req r' = (Inr (\<lparr>Requeue = False\<rparr>, None), r1)"
    using r1 assms(3,6,7) by (simp add: Reconcile_def reconcileNode_def)
  with r1 first show ?thesis by blast
qed

theorem Reconcile_not_found_removes_once_witness:
  "Reconcile exLib (exReq ''A'') (exRec (exClient []) None (Some [''A'' \<mapsto> ''k1'']))
     = (Inr (\<lparr>Requeue = False\<rparr>, None),
        (exRec (exClient []) None (Some [''A'' \<mapsto> ''k1'']))
          \<lparr>calls := [ConfigureDeviceCall ''wg0''
                       \<lparr>Config.Peers = [\<lparr>PeerConfig.PublicKey = [1], Remove = True,
                                          Endpoint = None, AllowedIPs = []\<rparr>]\<rparr>],
            cache := Some Map.empty\<rparr>)
   \<and> (\<exists>r''. Reconcile exLib (exReq ''A'')
               ((exRec (exClient []) None (Some [''A'' \<mapsto> ''k1'']))
                  \<lparr>calls := [ConfigureDeviceCall ''wg0''
                       \<lparr>Config.Peers = [\<lparr>PeerConfig.PublicKey = [1], Remove = True,
                                          Endpoint = None, AllowedIPs = []\<rparr>]\<rparr>],
                    cache := Some Map.empty\<rparr>)
               = (Inr (\<lparr>Requeue = False\<rparr>, None), r'')
            \<and> calls r'' = [ConfigureDeviceCall ''wg0''
                       \<lparr>Config.Peers = [\<lparr>PeerConfig.PublicKey = [1], Remove = True,
                                          Endpoint = None, AllowedIPs = []\<rparr>]\<rparr>]
            \<and> get r'' ''A'' = ('''', False))"
  using Reconcile_not_found_removes_once[where L = exLib and req = "exReq ''A''"
        and r = "exRec (exClient []) None (Some [''A'' \<mapsto> ''k1''])"
        and m = "[''A'' \<mapsto> ''k1'']" and N = "''A''" and pk = "''k1''" and key = "[1]"
        and c = "exClient []" and err = "Err ''not found''"
        and d = exDevice and wc = "\<lparr>ConfigureDevice = (\<lambda>_ _. None)\<rparr>"
        and cfg = "\<lparr>Config.Peers = [\<lparr>PeerConfig.PublicKey = [1], Remove = True,
                                          Endpoint = None, AllowedIPs = []\<rparr>]\<rparr>"
        and r' = "(exRec (exClient []) None (Some [''A'' \<mapsto> ''k1'']))
          \<lparr>calls := [ConfigureDeviceCall ''wg0''
                       \<lparr>Config.Peers = [\<lparr>PeerConfig.PublicKey = [1], Remove = True,
                                          Endpoint = None, AllowedIPs = []\<rparr>]\<rparr>],
            cache := Some Map.empty\<rparr>"]
  by (simp add: ex_defs)




text \<open>
  Claim C4 (unready tolerance). For a remote host whose record yields no candidate peer,
  the notification returns success with a nil error; the reconciler it leaves is the one
  the hydrate-if-empty step produced, so the notification itself changes neither the cache
  nor the calls issued, and hydration issues no call either. When the cache was not empty
  the reconciler is left exactly as it was.
\<close>

theorem Reconcile_unready_noop:
  assumes "hydrateIfEmpty L r = Inr r1"
    and "Client r = Some c"
    and "Get c req = Inr node"
    and "Node.Name node \<noteq> NodeName r"
    and "FromNode L node = Inl e"
  shows "Reconcile L req r = (Inr (\<lparr>Requeue = False\<rparr>, None), r1)
       \<and> calls r1 = calls r
       \<and> (\<not> len0 (cache r) \<longrightarrow> r1 = r)"
proof -
  note f = hydrateIfEmpty_fields[OF assms(1)]
  have "reconcileNode L req r1 = (Inr (\<lparr>Requeue = False\<rparr>, None), r1)"
    using assms(2-5) f by (simp add: reconcileNode_def)
  moreover have "\<not> len0 (cache r) \<longrightarrow> r1 = r"
    using assms(1) by (auto simp: hydrateIfEmpty_def)
  ultimately show ?thesis using assms(1) f(6) by (simp add: Reconcile_def)
qed

theorem Reconcile_unready_noop_witness:
  "Reconcile exLib (exReq ''B'') (exRec (exClient [exNode ''A'' ''k1'', exNode ''B'' '''']) None (Some [''A'' \<mapsto> ''k1'']))
     = (Inr (\<lparr>Requeue = False\<rparr>, None),
        exRec (exClient [exNode ''A'' ''k1'', exNode ''B'' '''']) None (Some [''A'' \<mapsto> ''k1'']))"
  using Reconcile_unready_noop[of exLib
        "exRec (exClient [exNode ''A'' ''k1'', exNode ''B'' '''']) None (Some [''A'' \<mapsto> ''k1''])"
        "exRec (exClient [exNode ''A'' ''k1'', exNode ''B'' '''']) None (Some [''A'' \<mapsto> ''k1''])"
        "exClient [exNode ''A'' ''k1'', exNode ''B'' '''']" "exReq ''B''"
        "exNode ''B'' ''''" "Err ''no public key''"]
  by (simp add: ex_defs index_def hydrateIfEmpty_def len0_def)

text \<open>
  Claim C5 (rekey). Host \<open>N\<close> is cached with \<open>K1\<close> and its record now yields a candidate
  peer whose key string is \<open>K2 \<noteq> K1\<close>: one \<^verbatim>\<open>ConfigureDevice\<close> call is issued, carrying the
  candidate's key, endpoint and allowed IPs with \<open>Remove\<close> unset, and once the device accepts
  it the entry for \<open>N\<close> is overwritten with \<open>K2\<close> and success returned.
\<close>

theorem Reconcile_rekey:
  assumes "cache r = Some m"
    and "m N = Some K1"
    and "Client r = Some c"
    and "Request.Name req = N"
    and "Get c req = Inr node"
    and "Node.Name node = N"
    and "N \<noteq> NodeName r"
    and "FromNode L node = Inr peer"
    and "KeyString L (Peer.PublicKey peer) = K2"
    and "K2 \<noteq> K1"
    and "WgDevice r = Some d"
    and "WgClient r = Some wc"
    and "cfg = \<lparr>Config.Peers = [\<lparr>PeerConfig.PublicKey = Peer.PublicKey peer, Remove = False,
                   Endpoint = Peer.Endpoint peer, AllowedIPs = Peer.AllowedIPs peer\<rparr>]\<rparr>"
    and "ConfigureDevice wc (Device.Name d) cfg = None"
  shows "Reconcile L req r =
           (Inr (\<lparr>Requeue = False\<rparr>, None),
            r\<lparr>calls := calls r @ [ConfigureDeviceCall (Device.Name d) cfg],
              cache := Some (m(N \<mapsto> K2))\<rparr>)"
proof -
  have h: "hydrateIfEmpty L r = Inr r"
    using assms(1,2) by (rule hydrateIfEmpty_nonempty)
  have rp: "ReconcilePeer r peer False =
      (Inr None, r\<lparr>calls := calls r @ [ConfigureDeviceCall (Device.Name d) cfg]\<rparr>)"
    using assms(11-14) by (simp add: ReconcilePeer_def)
  show ?thesis
    using assms(1-10) h rp
    by (simp add: Reconcile_def reconcileNode_def get_def index_def put_def assign_def)
qed

theorem Reconcile_rekey_witness:
  "Reconcile exLib (exReq ''A'')
      (exRec (exClient [exNode ''A'' ''k2'']) None (Some [''A'' \<mapsto> ''k1'']))
     = (Inr (\<lparr>Requeue = False\<rparr>, None),
        (exRec (exClient [exNode ''A'' ''k2'']) None (Some [''A'' \<mapsto> ''k1'']))
          \<lparr>calls := [ConfigureDeviceCall ''wg0''
                       \<lparr>Config.Peers = [\<lparr>PeerConfig.PublicKey = [2], Remove = False,
                                          Endpoint = None, AllowedIPs = []\<rparr>]\<rparr>],
            cache := Some [''A'' \<mapsto> ''k2'']\<rparr>)"
  using Reconcile_rekey[where L = exLib and req = "exReq ''A''"
        and r = "exRec (exClient [exNode ''A'' ''k2'']) None (Some [''A'' \<mapsto> ''k1''])"
        and m = "[''A'' \<mapsto> ''k1'']" and N = "''A''" and ?K1.0 = "''k1''" and ?K2.0 = "''k2''"
        and c = "exClient [exNode ''A'' ''k2'']" and node = "exNode ''A'' ''k2''"
        and peer = "\<lparr>Peer.PublicKey = [2], Endpoint = None, AllowedIPs = []\<rparr>"
        and d = exDevice and wc = "\<lparr>ConfigureDevice = (\<lambda>_ _. None)\<rparr>"
        and cfg = "\<lparr>Config.Peers = [\<lparr>PeerConfig.PublicKey = [2], Remove = False,
                                          Endpoint = None, AllowedIPs = []\<rparr>]\<rparr>"]
  by (simp add: ex_defs index_def)

text \<open>
  Claim C6 (self is never a peer). For a notification whose found record is the local
  host's, whatever the outcome (a return or a panic): the cache is the one the
  hydrate-if-empty step produced; the calls issued are unchanged or extended by one
  \<^verbatim>\<open>Update\<close> of the membership record, never by a device call; and the notification run
  on any other cache \<open>x\<close> gives the same outcome and leaves \<open>x\<close> in place, so it neither
  reads nor writes the cache.
\<close>

theorem Reconcile_local_host_frame:
  assumes "hydrateIfEmpty L r = Inr r1"
    and "Client r = Some c"
    and "Get c req = Inr node"
    and "Node.Name node = NodeName r"
    and "Reconcile L req r = (out, r')"
  shows "cache r' = cache r1
       \<and> (calls r' = calls r \<or> (\<exists>node'. calls r' = calls r @ [UpdateCall node']))
       \<and> (\<forall>x. reconcileNode L req (r1\<lparr>cache := x\<rparr>) = (out, r'\<lparr>cache := x\<rparr>))"
proof -
  note f = hydrateIfEmpty_fields[OF assms(1)]
  have body: "reconcileNode L req r1 = (out, r')"
    using assms(1,5) by (simp add: Reconcile_def)
  have pre: "Client r1 = Some c" "Node.Name node = NodeName r1"
    using f assms(2,4) by simp_all
  show ?thesis
  proof (cases "Annotate L r1 node")
    case (Inl p)
    then have "out = Inl p" "r' = r1"
      using body pre assms(3) by (simp_all add: reconcileNode_def)
    then show ?thesis
      using Inl pre assms(3) f(6) by (simp add: reconcileNode_def Annotate_cache_indep)
  next
    case (Inr t)
    obtain node' update err where t: "t = (node', update, err)" by (cases t) auto
    show ?thesis
    proof (cases "update \<and> err = None")
      case False
      then have "out = Inr (\<lparr>Requeue = False\<rparr>, None)" "r' = r1"
        using body pre assms(3) Inr t by (auto simp: reconcileNode_def)
      then show ?thesis
        using False Inr t pre assms(3) f(6)
        by (auto simp: reconcileNode_def Annotate_cache_indep)
    next
      case True
      then have r': "r' = r1\<lparr>calls := calls r1 @ [UpdateCall node']\<rparr>"
        using body pre assms(3) Inr t
        by (auto simp: reconcileNode_def Let_def split: option.splits)
      have out: "out = (case Update c node' of
                   Some err \<Rightarrow> Inr (\<lparr>Requeue = True\<rparr>, Some err)
                 | None \<Rightarrow> Inr (\<lparr>Requeue = False\<rparr>, None))"
        using True body pre assms(3) Inr t
        by (auto simp: reconcileNode_def Let_def split: option.splits)
      show ?thesis
        using True r' out Inr t pre assms(3) f(6)
        by (auto simp: reconcileNode_def Annotate_cache_indep Let_def split: option.splits)
    qed
  qed
qed

theorem Reconcile_local_host_frame_witness:
  "cache (snd (Reconcile exLib (exReq ''self'')
          (exRec (exClient [exNode ''self'' ''k9'']) None (Some [''A'' \<mapsto> ''k1'']))))
     = Some [''A'' \<mapsto> ''k1'']
   \<and> (\<exists>node'. calls (snd (Reconcile exLib (exReq ''self'')
          (exRec (exClient [exNode ''self'' ''k9'']) None (Some [''A'' \<mapsto> ''k1'']))))
        = [UpdateCall node'])"
  using Reconcile_local_host_frame[of exLib
        "exRec (exClient [exNode ''self'' ''k9'']) None (Some [''A'' \<mapsto> ''k1''])"
        "exRec (exClient [exNode ''self'' ''k9'']) None (Some [''A'' \<mapsto> ''k1''])"
        "exClient [exNode ''self'' ''k9'']"
        "exReq ''self''"
        "exNode ''self'' ''k9''"
        "fst (Reconcile exLib (exReq ''self'')
          (exRec (exClient [exNode ''self'' ''k9'']) None (Some [''A'' \<mapsto> ''k1''])))"
        "snd (Reconcile exLib (exReq ''self'')
          (exRec (exClient [exNode ''self'' ''k9'']) None (Some [''A'' \<mapsto> ''k1''])))"]
  by (simp add: ex_defs run_defs)

text \<open>
  Claim C7 (a failed device call does not touch the cache). Whenever a notification issued
  a \<^verbatim>\<open>ConfigureDevice\<close> call that the device rejected with \<open>e\<close>, on either branch, the
  wrapped error is returned, and the reconciler differs from the one the hydrate-if-empty
  step produced only by the recorded call: no put and no delete happened.
\<close>

theorem Reconcile_configure_failure:
  assumes "hydrateIfEmpty L r = Inr r1"
    and "Reconcile L req r = (out, r')"
    and "WgClient r = Some wc"
    and "calls r' = calls r @ [ConfigureDeviceCall dn cfg]"
    and "ConfigureDevice wc dn cfg = Some e"
  shows "out = Inr (\<lparr>Requeue = False\<rparr>, Some (Errorf ''ConfigureDevice failed'' e))
       \<and> r' = r1\<lparr>calls := calls r @ [ConfigureDeviceCall dn cfg]\<rparr>
       \<and> cache r' = cache r1
       \<and> (\<not> len0 (cache r) \<longrightarrow> cache r' = cache r)"
proof -
  note f = hydrateIfEmpty_fields[OF assms(1)]
  have body: "reconcileNode L req r1 = (out, r')"
    using assms(1,2) by (simp add: Reconcile_def)
  have ne: "r1 = r" if "\<not> len0 (cache r)"
    using that assms(1) by (auto simp: hydrateIfEmpty_def)
  have key: "out = Inr (\<lparr>Requeue = False\<rparr>, Some (Errorf ''ConfigureDevice failed'' e))
       \<and> r' = r1\<lparr>calls := calls r @ [ConfigureDeviceCall dn cfg]\<rparr>"
    using body assms(3,4,5) f
    by (auto simp: reconcileNode_def Let_def put_def assign_def del_def
             split: option.splits sum.splits if_splits prod.splits
             dest!: ReconcilePeer_cases)
  then show ?thesis using ne by auto
qed

theorem Reconcile_configure_failure_witness:
  "fst (Reconcile exLib (exReq ''A'')
          (exRec (exClient [exNode ''A'' ''k1'']) (Some (Err ''busy'')) (Some [''B'' \<mapsto> ''k2''])))
     = Inr (\<lparr>Requeue = False\<rparr>, Some (Errorf ''ConfigureDevice failed'' (Err ''busy'')))
   \<and> cache (snd (Reconcile exLib (exReq ''A'')
          (exRec (exClient [exNode ''A'' ''k1'']) (Some (Err ''busy'')) (Some [''B'' \<mapsto> ''k2'']))))
     = Some [''B'' \<mapsto> ''k2'']"
  using Reconcile_configure_failure[of exLib
        "exRec (exClient [exNode ''A'' ''k1'']) (Some (Err ''busy'')) (Some [''B'' \<mapsto> ''k2''])"
        "exRec (exClient [exNode ''A'' ''k1'']) (Some (Err ''busy'')) (Some [''B'' \<mapsto> ''k2''])"
        "exReq ''A''"
        "fst (Reconcile exLib (exReq ''A'')
          (exRec (exClient [exNode ''A'' ''k1'']) (Some (Err ''busy'')) (Some [''B'' \<mapsto> ''k2''])))"
        "snd (Reconcile exLib (exReq ''A'')
          (exRec (exClient [exNode ''A'' ''k1'']) (Some (Err ''busy'')) (Some [''B'' \<mapsto> ''k2''])))"
        "\<lparr>ConfigureDevice = (\<lambda>_ _. Some (Err ''busy''))\<rparr>"
        "''wg0''"
        "\<lparr>Config.Peers = [\<lparr>PeerConfig.PublicKey = [1], Remove = False,
                                          Endpoint = None, AllowedIPs = []\<rparr>]\<rparr>"
        "Err ''busy''"]
  by (simp add: ex_defs run_defs)

text \<open>
  Claim C8 (corrupt cached key). The record is not found and the cached value for the
  name does not parse: the parse error is returned, no call is issued and the cache keeps
  the entry; the reconciler is left exactly as it was.
\<close>

theorem Reconcile_corrupt_cached_key:
  assumes "cache r = Some m"
    and "m (Request.Name req) = Some pk"
    and "ParseKey L pk = Inl e"
    and "Client r = Some c"
    and "Get c req = Inl err"
    and "IsNotFound L err"
  shows "Reconcile L req r = (Inr (\<lparr>Requeue = False\<rparr>, Some e), r)"
proof -
  have h: "hydrateIfEmpty L r = Inr r"
    using assms(1,2) by (rule hydrateIfEmpty_nonempty)
  show ?thesis
    using assms h by (simp add: Reconcile_def reconcileNode_def get_def index_def)
qed

theorem Reconcile_corrupt_cached_key_witness:
  "Reconcile exLib (exReq ''A'') (exRec (exClient []) None (Some [''A'' \<mapsto> ''garbage'']))
     = (Inr (\<lparr>Requeue = False\<rparr>, Some (Err ''bad key'')),
        exRec (exClient []) None (Some [''A'' \<mapsto> ''garbage'']))"
  by (rule Reconcile_corrupt_cached_key[where m = "[''A'' \<mapsto> ''garbage'']" and pk = "''garbage''"
        and c = "exClient []" and err = "Err ''not found''"])
     (simp_all add: ex_defs)

text \<open>
  Claim C9 (put into a nil cache). The cache is nil and the list query fails, so hydration
  returns without initialising it. A notification for a remote host with a derivable
  candidate peer then issues the \<^verbatim>\<open>ConfigureDevice\<close> call, and once the device accepts it
  the put panics on the nil map: the outcome is a panic, not an error value.
\<close>

theorem Reconcile_nil_cache_put_panics:
  assumes "cache r = None"
    and "Client r = Some c"
    and "List c = Inl e"
    and "Get c req = Inr node"
    and "Node.Name node \<noteq> NodeName r"
    and "FromNode L node = Inr peer"
    and "WgDevice r = Some d"
    and "WgClient r = Some wc"
    and "cfg = \<lparr>Config.Peers = [\<lparr>PeerConfig.PublicKey = Peer.PublicKey peer, Remove = False,
                   Endpoint = Peer.Endpoint peer, AllowedIPs = Peer.AllowedIPs peer\<rparr>]\<rparr>"
    and "ConfigureDevice wc (Device.Name d) cfg = None"
  shows "hydrateCache L r = Inr r
       \<and> Reconcile L req r =
           (Inl NilMapAssignment,
            r\<lparr>calls := calls r @ [ConfigureDeviceCall (Device.Name d) cfg]\<rparr>)"
proof -
  have hc: "hydrateCache L r = Inr r"
    using assms(2,3) by (simp add: hydrateCache_def)
  then have h: "hydrateIfEmpty L r = Inr r"
    using assms(1) by (simp add: hydrateIfEmpty_def len0_def)
  have rp: "ReconcilePeer r peer False =
      (Inr None, r\<lparr>calls := calls r @ [ConfigureDeviceCall (Device.Name d) cfg]\<rparr>)"
    using assms(7-10) by (simp add: ReconcilePeer_def)
  have "Reconcile L req r =
           (Inl NilMapAssignment,
            r\<lparr>calls := calls r @ [ConfigureDeviceCall (Device.Name d) cfg]\<rparr>)"
    using assms(1-6) h rp
    by (simp add: Reconcile_def reconcileNode_def get_def index_def put_def assign_def)
  with hc show ?thesis by simp
qed

theorem Reconcile_nil_cache_put_panics_witness:
  "Reconcile exLib (exReq ''A'')
      (exRec ((exClient [exNode ''A'' ''k1''])\<lparr>List := Inl (Err ''list failed'')\<rparr>) None None)
     = (Inl NilMapAssignment,
        (exRec ((exClient [exNode ''A'' ''k1''])\<lparr>List := Inl (Err ''list failed'')\<rparr>) None None)
          \<lparr>calls := [ConfigureDeviceCall ''wg0''
                       \<lparr>Config.Peers = [\<lparr>PeerConfig.PublicKey = [1], Remove = False,
                                          Endpoint = None, AllowedIPs = []\<rparr>]\<rparr>]\<rparr>)"
  using Reconcile_nil_cache_put_panics[where L = exLib and req = "exReq ''A''"
        and r = "exRec ((exClient [exNode ''A'' ''k1''])\<lparr>List := Inl (Err ''list failed'')\<rparr>) None None"
        and c = "(exClient [exNode ''A'' ''k1''])\<lparr>List := Inl (Err ''list failed'')\<rparr>"
        and e = "Err ''list failed''" and node = "exNode ''A'' ''k1''"
        and peer = "\<lparr>Peer.PublicKey = [1], Endpoint = None, AllowedIPs = []\<rparr>"
        and d = exDevice and wc = "\<lparr>ConfigureDevice = (\<lambda>_ _. None)\<rparr>"
        and cfg = "\<lparr>Config.Peers = [\<lparr>PeerConfig.PublicKey = [1], Remove = False,
                                          Endpoint = None, AllowedIPs = []\<rparr>]\<rparr>"]
  by (simp add: ex_defs index_def)

text \<open>
  Claim C10 (Annotate and a nil annotations map). A record whose annotations map is nil makes
  \<^verbatim>\<open>Annotate\<close> panic on the first assignment. With a non-nil map, and the reconciler's
  device record present, it returns with a nil error; in no case does it return an error.
\<close>

theorem Annotate_nil_annotations:
  "(Annotations n = None \<longrightarrow> Annotate L r n = Inl NilMapAssignment)
   \<and> (Annotations n \<noteq> None \<longrightarrow> WgDevice r \<noteq> None \<longrightarrow>
        (\<exists>n' update. Annotate L r n = Inr (n', update, None)))
   \<and> (\<forall>n' update e. Annotate L r n \<noteq> Inr (n', update, Some e))"
  by (auto simp: Annotate_def index_def setAnnotation_def assign_def Let_def
           split: option.splits sum.splits prod.splits if_splits)

theorem Annotate_nil_annotations_witness:
  "Annotate exLib (exRec (exClient []) None None) (exBare ''self'') = Inl NilMapAssignment
   \<and> (\<exists>n' update. Annotate exLib (exRec (exClient []) None None) (exNode ''self'' ''k9'')
          = Inr (n', update, None))"
  using Annotate_nil_annotations[of "exBare ''self''" exLib "exRec (exClient []) None None"]
        Annotate_nil_annotations[of "exNode ''self'' ''k9''" exLib "exRec (exClient []) None None"]
  by (simp add: ex_defs)

end
